theory Spec2Isabelle
  imports Main "HOL-Library.Word"
begin

unbundle bit_operations_syntax

section \<open>Go library functions used by simpletrace.go\<close>

text \<open>
  Go strings are byte sequences; they are modelled as \<open>string\<close> (a list of 8-bit
  characters), so \<open>length\<close> is Go's \<open>len\<close>.
\<close>

subsection \<open>strings.Split with a one-byte separator\<close>

text \<open>
  \<open>strings.Split(s, sep)\<close> for a separator of one byte: the pieces of \<open>s\<close> between
  the occurrences of \<open>sep\<close>; one more piece than there are separators, so the empty
  string gives one empty piece.
\<close>

fun Split :: "string \<Rightarrow> char \<Rightarrow> string list" where
  "Split [] sep = [[]]"
| "Split (c # cs) sep =
     (if c = sep then [] # Split cs sep
      else (case Split cs sep of
              [] \<Rightarrow> [[c]]
            | p # ps \<Rightarrow> (c # p) # ps))"

subsection \<open>encoding/hex and fmt.Sprintf\<close>

definition hextable :: string where
  "hextable = ''0123456789abcdef''"

text \<open>\<open>hex.EncodeToString\<close>: two lower-case digits for each byte, high nibble first.\<close>

definition EncodeToString :: "8 word list \<Rightarrow> string" where
  "EncodeToString b =
     concat (map (\<lambda>v. [hextable ! unat (drop_bit 4 v), hextable ! unat (v AND 0x0f)]) b)"

text \<open>
  The digits of \<open>fmt.Sprintf("%x", n)\<close> for a non-negative integer, and
  \<open>fmt.Sprintf("%0wx", n)\<close>, which pads them with zeros on the left up to width \<open>w\<close>.
\<close>

fun hex_digits :: "nat \<Rightarrow> string" where
  "hex_digits n =
     (if n < 16 then [hextable ! n]
      else hex_digits (n div 16) @ [hextable ! (n mod 16)])"

declare hex_digits.simps [simp del]

definition Sprintf_0x :: "nat \<Rightarrow> nat \<Rightarrow> string" where
  "Sprintf_0x w n =
     (let d = hex_digits n in replicate (w - length d) (CHR ''0'') @ d)"

subsection \<open>crypto/rand and the ways a call ends\<close>

text \<open>
  What a call does: it ends the process with a fatal error of the Go runtime, which
  nothing can recover (\<open>Fatal\<close>), it panics (\<open>Panic\<close>), or it returns. \<open>and_then\<close>
  runs the rest of a function body after a call that has returned.
\<close>

datatype 'a outcome = Fatal | Panic | Return 'a

definition and_then :: "'a outcome \<Rightarrow> ('a \<Rightarrow> 'b outcome) \<Rightarrow> 'b outcome" where
  "and_then m f = (case m of Fatal \<Rightarrow> Fatal | Panic \<Rightarrow> Panic | Return x \<Rightarrow> f x)"

text \<open>
  The random source is part of the environment. Its state is the bytes it can still
  deliver; the read of \<open>rand.Read(b)\<close> for a buffer of \<open>n\<close> bytes succeeds and fills
  the whole buffer when \<open>n\<close> bytes are left, and fails when fewer are left. Every
  pattern of failing and succeeding reads of the two generator calls of a request is
  the behaviour of some such state.

  What \<open>rand.Read\<close> does when the read fails depends on the Go release the program is
  built with, which the repository does not fix. Before Go 1.24 it returns the error to
  its caller. Since Go 1.24 it never returns an error: on a failed read it ends the
  process with a fatal error.
\<close>

datatype toolchain = Go_before_1_24 | Go_since_1_24

type_synonym entropy = "8 word list"

definition rand_Read :: "toolchain \<Rightarrow> nat \<Rightarrow> entropy \<Rightarrow> (8 word list option \<times> entropy) outcome" where
  "rand_Read tc n e =
     (if length e < n
      then (case tc of Go_before_1_24 \<Rightarrow> Return (None, e) | Go_since_1_24 \<Rightarrow> Fatal)
      else Return (Some (take n e), drop n e))"

subsection \<open>fmt.Sscanf with the format "%02x" and a byte operand\<close>

text \<open>
  \<open>fmt.Sscanf(str, "%02x", &flagByte)\<close> as the fmt package runs it: the verb first
  discards leading space (a newline there is the error "unexpected newline"), then reads
  a token of hexadecimal digits, at most two runes wide because of the width 2, and
  fails on an empty token ("unexpected EOF" at the end of the input, "expected integer"
  before any other rune). The token is converted in base 16 and must fit the byte. Input
  after the token is left unread and is no error. \<open>None\<close> is a non-nil \<open>err\<close>.
\<close>

definition byte :: "char \<Rightarrow> nat" where
  "byte c = of_char c"

text \<open>
  The number of bytes of the rune at the head of the input when it is one of fmt's space
  runes other than the newline (U+0009 to U+000D, U+0020, U+0085, U+00A0, U+1680,
  U+2000 to U+200A, U+2028, U+2029, U+202F, U+205F, U+3000, in UTF-8), else 0.
\<close>

definition space_len :: "string \<Rightarrow> nat" where
  "space_len s =
     (let b = map byte (take 3 s) in
      if b = [] then 0
      else if b ! 0 = 0x09 \<or> b ! 0 = 0x0B \<or> b ! 0 = 0x0C \<or> b ! 0 = 0x0D \<or> b ! 0 = 0x20 then 1
      else if 2 \<le> length b \<and> b ! 0 = 0xC2 \<and> (b ! 1 = 0x85 \<or> b ! 1 = 0xA0) then 2
      else if length b = 3 \<and>
              (b = [0xE1, 0x9A, 0x80]
               \<or> (b ! 0 = 0xE2 \<and> b ! 1 = 0x80 \<and>
                   ((0x80 \<le> b ! 2 \<and> b ! 2 \<le> 0x8A) \<or> b ! 2 = 0xA8 \<or> b ! 2 = 0xA9 \<or> b ! 2 = 0xAF))
               \<or> b = [0xE2, 0x81, 0x9F]
               \<or> b = [0xE3, 0x80, 0x80]) then 3
      else 0)"

function SkipSpace :: "string \<Rightarrow> string option" where
  "SkipSpace s =
     (if s = [] then Some []
      else if hd s = CHR 0x0A then None
      else if space_len s = 0 then Some s
      else SkipSpace (drop (space_len s) s))"
  by pat_completeness auto
termination
  by (relation "measure length") auto

declare SkipSpace.simps [simp del]

definition isHexDigit :: "char \<Rightarrow> bool" where
  "isHexDigit c = (c \<in> set ''0123456789aAbBcCdDeEfF'')"

definition hexval :: "char \<Rightarrow> nat" where
  "hexval c =
     (if byte c \<le> byte (CHR ''9'') then byte c - byte (CHR ''0'')
      else if byte c \<le> byte (CHR ''F'') then byte c - byte (CHR ''A'') + 10
      else byte c - byte (CHR ''a'') + 10)"

definition ParseUint16 :: "string \<Rightarrow> nat" where
  "ParseUint16 tok = foldl (\<lambda>a c. a * 16 + hexval c) 0 tok"

definition Sscanf_02x :: "string \<Rightarrow> 8 word option" where
  "Sscanf_02x str =
     (case SkipSpace str of
        None \<Rightarrow> None
      | Some r \<Rightarrow>
          (let tok = takeWhile isHexDigit (take 2 r) in
           if tok = [] then None
           else if ParseUint16 tok < 256 then Some (of_nat (ParseUint16 tok))
           else None))"

section \<open>simpletrace.go\<close>

subsection \<open>parseSampledFlag, generateTraceID, generateSpanID\<close>

definition parseSampledFlag :: "string \<Rightarrow> bool" where
  "parseSampledFlag flags =
     (if length flags \<noteq> 2 then False
      else (case Sscanf_02x flags of
              None \<Rightarrow> False
            | Some flagByte \<Rightarrow> (flagByte AND 0x01) = 0x01))"

text \<open>
  The generators take the release of Go and the state of the random source, and return
  the identifier with the new state of the source. In the result of \<open>rand_Read\<close>,
  \<open>None\<close> is a non-nil \<open>err\<close>.
\<close>

definition generateTraceID :: "toolchain \<Rightarrow> entropy \<Rightarrow> (string \<times> entropy) outcome" where
  "generateTraceID tc e =
     and_then (rand_Read tc 16 e)
       (\<lambda>(b, e'). case b of
                    None \<Rightarrow> Return (Sprintf_0x 32 0, e')
                  | Some b \<Rightarrow> Return (EncodeToString b, e'))"

definition generateSpanID :: "toolchain \<Rightarrow> entropy \<Rightarrow> (string \<times> entropy) outcome" where
  "generateSpanID tc e =
     and_then (rand_Read tc 8 e)
       (\<lambda>(b, e'). case b of
                    None \<Rightarrow> Return (Sprintf_0x 16 0, e')
                  | Some b \<Rightarrow> Return (EncodeToString b, e'))"

subsection \<open>The handler's configuration, the request and the log fields\<close>

record SimpleTrace =
  Format :: string
  ProjectID :: string

text \<open>A \<open>zapcore.Field\<close> as \<open>zap.String(key, val)\<close> or \<open>zap.Bool(key, val)\<close> builds it.\<close>

datatype Field = zap_String string string | zap_Bool string bool

text \<open>
  Of the request, the handler reads and writes the header \<open>traceparent\<close> and the
  \<open>ExtraLogFields\<close> value of the request context. \<open>Header.Get\<close> gives the empty
  string for a header that is absent. The context value is \<open>None\<close> when the host has
  not put one there; the type assertion of the source panics then.
\<close>

record Request =
  Header :: "string \<rightharpoonup> string"
  ExtraLogFields :: "Field list option"

definition Header_Get :: "(string \<rightharpoonup> string) \<Rightarrow> string \<Rightarrow> string" where
  "Header_Get h k = (case h k of None \<Rightarrow> [] | Some v \<Rightarrow> v)"

definition Header_Set :: "(string \<rightharpoonup> string) \<Rightarrow> string \<Rightarrow> string \<Rightarrow> (string \<rightharpoonup> string)" where
  "Header_Set h k v = h(k \<mapsto> v)"

subsection \<open>Provision\<close>

text \<open>
  \<open>repl\<close> is \<open>caddy.NewReplacer().ReplaceAll(\<cdot>, "")\<close>, the host's substitution of
  placeholders. The result is the returned error (\<open>None\<close> is \<open>nil\<close>) and the updated
  configuration. The configuration reaches \<open>Provision\<close> from the JSON configuration
  of the host, or from \<open>UnmarshalCaddyfile\<close>, which stores the token after
  \<open>format\<close> as it is; the \<open>Dispenser\<close> that function reads is the host's and is not
  modelled.
\<close>

datatype error = Error string

definition Provision :: "(string \<Rightarrow> string) \<Rightarrow> SimpleTrace \<Rightarrow> error option \<times> SimpleTrace" where
  "Provision repl st =
     (let st1 = st\<lparr>ProjectID := repl (ProjectID st)\<rparr>;
          st2 = (if ProjectID st1 = [] \<and> (Format st1 = ''stackdriver'' \<or> Format st1 = ''gcp'')
                 then st1\<lparr>ProjectID := repl ''{env.GOOGLE_CLOUD_PROJECT}''\<rparr>
                 else st1)
      in (None, st2))"

subsection \<open>ServeHTTP\<close>

text \<open>The local variables of \<open>ServeHTTP\<close> that hold the trace context.\<close>

record trace_vars =
  traceID :: string
  spanID :: string
  parentSpanID :: string
  flags :: string
  sampled :: bool

text \<open>Lines 60 to 89: the trace context from the header value, or a new one.\<close>

definition new_trace :: "toolchain \<Rightarrow> entropy \<Rightarrow> (trace_vars \<times> entropy) outcome" where
  "new_trace tc e =
     and_then (generateTraceID tc e) (\<lambda>(t, e1).
     and_then (generateSpanID tc e1) (\<lambda>(s, e2).
       Return (\<lparr>traceID = t, spanID = s, parentSpanID = [], flags = ''01'', sampled = True\<rparr>, e2)))"

definition trace_context :: "toolchain \<Rightarrow> string \<Rightarrow> entropy \<Rightarrow> (trace_vars \<times> entropy) outcome" where
  "trace_context tc traceParent e =
     (if traceParent \<noteq> [] then
        (let parts = Split traceParent (CHR ''-'') in
         if length parts = 4 \<and> parts ! 0 = ''00'' then
           and_then (generateSpanID tc e) (\<lambda>(s, e1).
             Return (\<lparr>traceID = parts ! 1, spanID = s, parentSpanID = parts ! 2,
                      flags = parts ! 3, sampled = parseSampledFlag (parts ! 3)\<rparr>, e1))
         else new_trace tc e)
      else new_trace tc e)"

text \<open>Line 92: \<open>fmt.Sprintf("00-%s-%s-%s", traceID, spanID, flags)\<close>.\<close>

definition newTraceParent :: "trace_vars \<Rightarrow> string" where
  "newTraceParent v = ''00-'' @ traceID v @ ''-'' @ spanID v @ ''-'' @ flags v"

text \<open>Lines 94 to 163: the log fields in the configured format.\<close>

definition logFields :: "SimpleTrace \<Rightarrow> trace_vars \<Rightarrow> Field list" where
  "logFields st v =
     (let format = (if Format st = [] then ''otel'' else Format st) in
      if format = ''stackdriver'' \<or> format = ''gcp'' then
        (let traceField = (if ProjectID st \<noteq> []
                           then ''projects/'' @ ProjectID st @ ''/traces/'' @ traceID v
                           else traceID v)
         in [zap_String ''logging.googleapis.com/trace'' traceField,
             zap_String ''logging.googleapis.com/spanId'' (spanID v),
             zap_Bool ''logging.googleapis.com/trace_sampled'' (sampled v)]
            @ (if parentSpanID v \<noteq> [] then [zap_String ''parent_span_id'' (parentSpanID v)] else []))
      else if format = ''tempo'' then
        [zap_String ''traceID'' (traceID v),
         zap_String ''spanID'' (spanID v),
         zap_Bool ''traceSampled'' (sampled v)]
        @ (if parentSpanID v \<noteq> [] then [zap_String ''parentSpanID'' (parentSpanID v)] else [])
      else if format = ''ecs'' then
        [zap_String ''trace.id'' (traceID v),
         zap_String ''span.id'' (spanID v),
         zap_Bool ''trace.sampled'' (sampled v)]
        @ (if parentSpanID v \<noteq> [] then [zap_String ''span.parent_id'' (parentSpanID v)] else [])
      else if format = ''datadog'' \<or> format = ''dd'' then
        [zap_String ''dd.trace_id'' (traceID v),
         zap_String ''dd.span_id'' (spanID v),
         zap_Bool ''dd.sampled'' (sampled v)]
        @ (if parentSpanID v \<noteq> [] then [zap_String ''dd.parent_id'' (parentSpanID v)] else [])
      else
        [zap_String ''trace_id'' (traceID v),
         zap_String ''span_id'' (spanID v),
         zap_Bool ''trace_sampled'' (sampled v)]
        @ (if parentSpanID v \<noteq> [] then [zap_String ''parent_span_id'' (parentSpanID v)] else []))"

text \<open>
  The whole handler. \<open>next\<close> is the next handler of the chain, which gets the changed
  request and whose error the handler returns. The outcome is the end of the process,
  when a generator ends it; a panic, when the request context holds no
  \<open>ExtraLogFields\<close>; or the returned error with the request as it was handed on and the
  state of the random source.
\<close>

definition ServeHTTP ::
  "toolchain \<Rightarrow> SimpleTrace \<Rightarrow> Request \<Rightarrow> (Request \<Rightarrow> error option) \<Rightarrow> entropy
     \<Rightarrow> (error option \<times> Request \<times> entropy) outcome" where
  "ServeHTTP tc st r next e =
     (let traceParent = Header_Get (Header r) ''traceparent'' in
      and_then (trace_context tc traceParent e) (\<lambda>(v, e').
        let fields = logFields st v
        in case ExtraLogFields r of
             None \<Rightarrow> Panic
           | Some extra \<Rightarrow>
               (let r' = r\<lparr>ExtraLogFields := Some (extra @ fields),
                           Header := Header_Set (Header r) ''traceparent'' (newTraceParent v)\<rparr>
                in Return (next r', r', e'))))"

subsection \<open>Vocabulary of the properties\<close>


definition field_key :: "Field \<Rightarrow> string" where
  "field_key fl = (case fl of zap_String k v \<Rightarrow> k | zap_Bool k b \<Rightarrow> k)"

text \<open>The keys under which the five formats of \<open>ServeHTTP\<close> log the parent span id.\<close>

definition parent_keys :: "string list" where
  "parent_keys = [''parent_span_id'', ''parentSpanID'', ''span.parent_id'', ''dd.parent_id'']"

definition has_parent_field :: "Field list \<Rightarrow> bool" where
  "has_parent_field fs = list_ex (\<lambda>fl. field_key fl \<in> set parent_keys) fs"

text \<open>
  The request as \<open>ServeHTTP\<close> hands it to the next handler (lines 167 to 173): the log
  fields added after those already there, and the header overwritten.
\<close>

definition handed_on :: "SimpleTrace \<Rightarrow> Request \<Rightarrow> Field list \<Rightarrow> trace_vars \<Rightarrow> Request" where
  "handed_on st r extra v =
     r\<lparr>ExtraLogFields := Some (extra @ logFields st v),
       Header := (Header r)(''traceparent'' \<mapsto> newTraceParent v)\<rparr>"

section \<open>Properties\<close>

subsection \<open>Splitting\<close>

lemma Split_not_Nil: "Split s sep \<noteq> []"
  by (induction s) (auto split: list.splits)

lemma Split_no_sep: "sep \<notin> set a \<Longrightarrow> Split a sep = [a]"
  by (induction a) auto

lemma Split_append_sep: "sep \<notin> set a \<Longrightarrow> Split (a @ sep # rest) sep = a # Split rest sep"
  by (induction a) auto

lemma Split_fields4:
  assumes "sep \<notin> set a" "sep \<notin> set b" "sep \<notin> set c" "sep \<notin> set d"
  shows "Split (a @ sep # b @ sep # c @ sep # d) sep = [a, b, c, d]"
  using assms by (simp add: Split_append_sep Split_no_sep)

subsection \<open>Hexadecimal output\<close>










lemma Sprintf_0x_zero: "Sprintf_0x w 0 = replicate (w - 1) (CHR ''0'') @ ''0''"
  by (simp add: Sprintf_0x_def hex_digits.simps hextable_def)

lemma Sprintf_0x_32: "Sprintf_0x 32 0 = ''00000000000000000000000000000000''"
  by (simp add: Sprintf_0x_zero eval_nat_numeral)

lemma Sprintf_0x_16: "Sprintf_0x 16 0 = ''0000000000000000''"
  by (simp add: Sprintf_0x_zero eval_nat_numeral)

subsection \<open>The log fields\<close>

lemma has_parent_field_iff: "has_parent_field (logFields st v) = (parentSpanID v \<noteq> [])"
  by (simp add: has_parent_field_def logFields_def field_key_def parent_keys_def Let_def)

lemma length_logFields: "length (logFields st v) = (if parentSpanID v = [] then 3 else 4)"
  by (simp add: logFields_def Let_def)

lemma logFields_generic:
  assumes "Format st \<notin> set [''stackdriver'', ''gcp'', ''tempo'', ''ecs'', ''datadog'', ''dd'']"
  shows "logFields st v =
     [zap_String ''trace_id'' (traceID v),
      zap_String ''span_id'' (spanID v),
      zap_Bool ''trace_sampled'' (sampled v)]
     @ (if parentSpanID v \<noteq> [] then [zap_String ''parent_span_id'' (parentSpanID v)] else [])"
  using assms by (simp add: logFields_def Let_def)

subsection \<open>Scanning the flags\<close>

lemma hex_digit_byte: "isHexDigit a \<Longrightarrow> 48 \<le> byte a \<and> byte a \<le> 102"
  by (auto simp: isHexDigit_def byte_def)

lemma space_len_ascii:
  assumes "32 < byte a" "byte a < 128"
  shows "space_len (a # s) = 0"
  using assms by (simp add: space_len_def Let_def numeral_3_eq_3)

lemma newline_byte: "byte (CHR 0x0A) = 10"
  by (simp add: byte_def)

lemma SkipSpace_hex: "isHexDigit a \<Longrightarrow> SkipSpace (a # s) = Some (a # s)"
proof -
  assume "isHexDigit a"
  then have b: "48 \<le> byte a \<and> byte a \<le> 102"
    by (rule hex_digit_byte)
  then have "a \<noteq> CHR 0x0A"
    using newline_byte by auto
  moreover from b have "space_len (a # s) = 0"
    by (simp add: space_len_ascii)
  ultimately show ?thesis
    by (simp add: SkipSpace.simps [of "a # s"])
qed

lemma hexval_less: "isHexDigit c \<Longrightarrow> hexval c < 16"
  by (auto simp: isHexDigit_def hexval_def byte_def)

lemma byte_and_one: "((of_nat n :: 8 word) AND 1 = 1) = odd n"
  by (simp add: and_one_eq word_eq_iff_unsigned [where ?'a = nat] unat_of_nat mod_2_eq_odd flip: even_iff_mod_2_eq_zero)

lemma Sscanf_02x_two_hex:
  assumes "isHexDigit a" "isHexDigit b"
  shows "Sscanf_02x [a, b] = Some (of_nat (hexval a * 16 + hexval b))"
proof -
  have "hexval a * 16 + hexval b < 256"
    using hexval_less [OF assms(1)] hexval_less [OF assms(2)] by simp
  then show ?thesis
    using assms by (simp add: Sscanf_02x_def SkipSpace_hex ParseUint16_def)
qed

lemma Sscanf_02x_one_hex:
  assumes "isHexDigit a" "\<not> isHexDigit b"
  shows "Sscanf_02x [a, b] = Some (of_nat (hexval a))"
proof -
  have "hexval a < 256"
    using hexval_less [OF assms(1)] by simp
  then show ?thesis
    using assms by (simp add: Sscanf_02x_def SkipSpace_hex ParseUint16_def)
qed

lemma parseSampledFlag_wrong_length: "length s \<noteq> 2 \<Longrightarrow> parseSampledFlag s = False"
  by (simp add: parseSampledFlag_def)

lemma parseSampledFlag_two_hex:
  assumes "isHexDigit a" "isHexDigit b"
  shows "parseSampledFlag [a, b] = odd (hexval b)"
proof -
  have "parseSampledFlag [a, b] = ((of_nat (hexval a * 16 + hexval b) :: 8 word) AND 1 = 1)"
    by (simp add: parseSampledFlag_def Sscanf_02x_two_hex [OF assms] del: of_nat_add of_nat_mult)
  then show ?thesis
    by (simp only: byte_and_one) simp
qed

lemma parseSampledFlag_one_hex:
  assumes "isHexDigit a" "\<not> isHexDigit b"
  shows "parseSampledFlag [a, b] = odd (hexval a)"
  by (simp add: parseSampledFlag_def Sscanf_02x_one_hex [OF assms] byte_and_one)

lemma parseSampledFlag_examples:
  "parseSampledFlag ''01'' = True" "parseSampledFlag ''00'' = False"
  "parseSampledFlag ''ff'' = True" "parseSampledFlag ''0'' = False"
  "parseSampledFlag ''zz'' = False"
  by code_simp+

subsection \<open>Calls that return or end the process\<close>

lemma and_then_Return [simp]: "and_then (Return x) f = f x"
  by (simp add: and_then_def)

lemma and_then_Fatal [simp]: "and_then Fatal f = Fatal"
  by (simp add: and_then_def)

lemma and_then_Panic [simp]: "and_then Panic f = Panic"
  by (simp add: and_then_def)

subsection \<open>The identifier generators\<close>

lemma generateTraceID_read:
  "16 \<le> length e \<Longrightarrow> generateTraceID tc e = Return (EncodeToString (take 16 e), drop 16 e)"
  by (simp add: generateTraceID_def rand_Read_def)

lemma generateSpanID_read:
  "8 \<le> length e \<Longrightarrow> generateSpanID tc e = Return (EncodeToString (take 8 e), drop 8 e)"
  by (simp add: generateSpanID_def rand_Read_def)

lemma generateTraceID_fallback:
  "length e < 16 \<Longrightarrow>
     generateTraceID Go_before_1_24 e = Return (''00000000000000000000000000000000'', e)"
  by (simp add: generateTraceID_def rand_Read_def Sprintf_0x_32)

lemma generateSpanID_fallback:
  "length e < 8 \<Longrightarrow> generateSpanID Go_before_1_24 e = Return (''0000000000000000'', e)"
  by (simp add: generateSpanID_def rand_Read_def Sprintf_0x_16)

lemma generateTraceID_fatal:
  "length e < 16 \<Longrightarrow> generateTraceID Go_since_1_24 e = Fatal"
  by (simp add: generateTraceID_def rand_Read_def)

lemma generateSpanID_fatal:
  "length e < 8 \<Longrightarrow> generateSpanID Go_since_1_24 e = Fatal"
  by (simp add: generateSpanID_def rand_Read_def)

lemma generateTraceID_returns:
  assumes "tc = Go_before_1_24 \<or> 16 \<le> length e"
  shows "\<exists>t e1. generateTraceID tc e = Return (t, e1) \<and> length e1 \<le> length e
           \<and> (16 \<le> length e \<longrightarrow> length e1 = length e - 16)"
proof (cases "16 \<le> length e")
  case True
  then show ?thesis by (simp add: generateTraceID_read)
next
  case False
  with assms show ?thesis by (simp add: generateTraceID_fallback)
qed

lemma generateSpanID_returns:
  assumes "tc = Go_before_1_24 \<or> 8 \<le> length e"
  shows "\<exists>s e1. generateSpanID tc e = Return (s, e1)"
proof (cases "8 \<le> length e")
  case True
  then show ?thesis by (simp add: generateSpanID_read)
next
  case False
  with assms show ?thesis by (simp add: generateSpanID_fallback)
qed



subsection \<open>The trace context and the handler\<close>

lemma new_trace_Return:
  assumes "generateTraceID tc e = Return (t, e1)" and "generateSpanID tc e1 = Return (s, e2)"
  shows "new_trace tc e =
     Return (\<lparr>traceID = t, spanID = s, parentSpanID = [], flags = ''01'', sampled = True\<rparr>, e2)"
  using assms by (simp add: new_trace_def)

lemma trace_context_eq:
  "trace_context tc h e =
     (if length (Split h (CHR ''-'')) = 4 \<and> Split h (CHR ''-'') ! 0 = ''00''
      then map_outcome
             (\<lambda>(s, e1). (\<lparr>traceID = Split h (CHR ''-'') ! 1, spanID = s,
                           parentSpanID = Split h (CHR ''-'') ! 2,
                           flags = Split h (CHR ''-'') ! 3,
                           sampled = parseSampledFlag (Split h (CHR ''-'') ! 3)\<rparr>, e1))
             (generateSpanID tc e)
      else new_trace tc e)"
proof (cases "h = []")
  case True
  then show ?thesis by (simp add: trace_context_def)
next
  case False
  then show ?thesis
    by (cases "generateSpanID tc e") (auto simp: trace_context_def Let_def)
qed

lemma ServeHTTP_Return:
  assumes "ExtraLogFields r = Some extra"
    and "trace_context tc (Header_Get (Header r) ''traceparent'') e = Return (v, e')"
  shows "ServeHTTP tc st r next e =
     Return (next (handed_on st r extra v), handed_on st r extra v, e')"
  using assms by (simp add: ServeHTTP_def handed_on_def Let_def Header_Set_def)

lemma ServeHTTP_Fatal:
  assumes "trace_context tc (Header_Get (Header r) ''traceparent'') e = Fatal"
  shows "ServeHTTP tc st r next e = Fatal"
  using assms by (simp add: ServeHTTP_def Let_def)

lemma new_trace_returns:
  assumes "tc = Go_before_1_24 \<or> 24 \<le> length e"
  shows "\<exists>v e'. new_trace tc e = Return (v, e')"
proof -
  from assms have "tc = Go_before_1_24 \<or> 16 \<le> length e"
    by auto
  then obtain t e1 where tid: "generateTraceID tc e = Return (t, e1)"
    and rest: "16 \<le> length e \<longrightarrow> length e1 = length e - 16"
    using generateTraceID_returns [of tc e] by blast
  from assms rest have "tc = Go_before_1_24 \<or> 8 \<le> length e1"
    by auto
  then obtain s e2 where "generateSpanID tc e1 = Return (s, e2)"
    using generateSpanID_returns by blast
  with tid show ?thesis
    by (simp add: new_trace_Return)
qed

lemma trace_context_returns:
  assumes "tc = Go_before_1_24 \<or> 24 \<le> length e"
  shows "\<exists>v e'. trace_context tc h e = Return (v, e')"
proof (cases "length (Split h (CHR ''-'')) = 4 \<and> Split h (CHR ''-'') ! 0 = ''00''")
  case True
  from assms have "tc = Go_before_1_24 \<or> 8 \<le> length e"
    by auto
  then obtain s e1 where "generateSpanID tc e = Return (s, e1)"
    using generateSpanID_returns by blast
  with True show ?thesis
    by (simp add: trace_context_eq)
next
  case False
  then have "trace_context tc h e = new_trace tc e"
    by (simp only: trace_context_eq if_False)
  with assms show ?thesis
    by (simp add: new_trace_returns)
qed

lemma trace_context_Fatal:
  assumes "length e < 8"
  shows "trace_context Go_since_1_24 h e = Fatal"
proof -
  from assms have "generateSpanID Go_since_1_24 e = Fatal"
    by (rule generateSpanID_fatal)
  moreover from assms have "generateTraceID Go_since_1_24 e = Fatal"
    by (simp add: generateTraceID_fatal)
  ultimately show ?thesis
    by (simp add: trace_context_eq new_trace_def)
qed

lemma ServeHTTP_fallback:
  assumes "length e < 8" and "ExtraLogFields r = Some extra" and "Header r ''traceparent'' = None"
  shows "ServeHTTP Go_before_1_24 st r next e =
     Return (next (handed_on st r extra
               \<lparr>traceID = ''00000000000000000000000000000000'', spanID = ''0000000000000000'',
                parentSpanID = [], flags = ''01'', sampled = True\<rparr>),
             handed_on st r extra
               \<lparr>traceID = ''00000000000000000000000000000000'', spanID = ''0000000000000000'',
                parentSpanID = [], flags = ''01'', sampled = True\<rparr>,
             e)"
proof -
  from assms(3) have get: "Header_Get (Header r) ''traceparent'' = []"
    by (simp add: Header_Get_def)
  from assms(1) have "generateTraceID Go_before_1_24 e = Return (''00000000000000000000000000000000'', e)"
    by (simp add: generateTraceID_fallback)
  moreover from assms(1) have "generateSpanID Go_before_1_24 e = Return (''0000000000000000'', e)"
    by (rule generateSpanID_fallback)
  ultimately have "new_trace Go_before_1_24 e =
      Return (\<lparr>traceID = ''00000000000000000000000000000000'', spanID = ''0000000000000000'',
               parentSpanID = [], flags = ''01'', sampled = True\<rparr>, e)"
    by (rule new_trace_Return)
  then have "trace_context Go_before_1_24 (Header_Get (Header r) ''traceparent'') e =
      Return (\<lparr>traceID = ''00000000000000000000000000000000'', spanID = ''0000000000000000'',
               parentSpanID = [], flags = ''01'', sampled = True\<rparr>, e)"
    by (simp add: get trace_context_eq)
  with assms(2) show ?thesis
    by (rule ServeHTTP_Return)
qed

section \<open>The claims\<close>

subsection \<open>C1: a header that parses is continued\<close>




subsection \<open>C2: any other header starts a new trace\<close>



subsection \<open>C3: what the parse accepts\<close>

text \<open>
  C3: the handler continues the trace of a header exactly when splitting it at the dashes
  gives 4 fields of which the first is \<open>00\<close>: then the trace context is the fields of
  the header with the span id that \<open>generateSpanID\<close> returns; in every other case it
  starts a new trace, into which nothing of the header goes. The three other fields are
  taken as they are, whatever their length and characters: every header \<open>00-t-p-f\<close>
  in which \<open>t\<close>, \<open>p\<close> and \<open>f\<close> are any strings without a dash is accepted, with
  trace id \<open>t\<close>, parent span id \<open>p\<close> and flags \<open>f\<close>.
\<close>

theorem parse_accepts_iff_four_fields_version_00:
  "trace_context tc h e =
     (if length (Split h (CHR ''-'')) = 4 \<and> hd (Split h (CHR ''-'')) = ''00''
      then map_outcome
             (\<lambda>(s, e1). (\<lparr>traceID = Split h (CHR ''-'') ! 1, spanID = s,
                           parentSpanID = Split h (CHR ''-'') ! 2,
                           flags = Split h (CHR ''-'') ! 3,
                           sampled = parseSampledFlag (Split h (CHR ''-'') ! 3)\<rparr>, e1))
             (generateSpanID tc e)
      else new_trace tc e)
   \<and> (CHR ''-'' \<notin> set t \<and> CHR ''-'' \<notin> set p \<and> CHR ''-'' \<notin> set f \<longrightarrow>
        trace_context tc (''00-'' @ t @ ''-'' @ p @ ''-'' @ f) e =
          map_outcome
            (\<lambda>(s, e1). (\<lparr>traceID = t, spanID = s, parentSpanID = p, flags = f,
                          sampled = parseSampledFlag f\<rparr>, e1))
            (generateSpanID tc e))"
proof (intro conjI impI)
  have "hd (Split h (CHR ''-'')) = Split h (CHR ''-'') ! 0"
    using Split_not_Nil [of h "CHR ''-''"] by (simp add: hd_conv_nth)
  then show "trace_context tc h e =
     (if length (Split h (CHR ''-'')) = 4 \<and> hd (Split h (CHR ''-'')) = ''00''
      then map_outcome
             (\<lambda>(s, e1). (\<lparr>traceID = Split h (CHR ''-'') ! 1, spanID = s,
                           parentSpanID = Split h (CHR ''-'') ! 2,
                           flags = Split h (CHR ''-'') ! 3,
                           sampled = parseSampledFlag (Split h (CHR ''-'') ! 3)\<rparr>, e1))
             (generateSpanID tc e)
      else new_trace tc e)"
    by (simp only: trace_context_eq)
next
  assume nodash: "CHR ''-'' \<notin> set t \<and> CHR ''-'' \<notin> set p \<and> CHR ''-'' \<notin> set f"
  have "CHR ''-'' \<notin> set ''00''"
    by simp
  with nodash have "Split (''00'' @ CHR ''-'' # t @ CHR ''-'' # p @ CHR ''-'' # f) (CHR ''-'')
      = [''00'', t, p, f]"
    using Split_fields4 [of "CHR ''-''" "''00''" t p f] by blast
  then have "Split (''00-'' @ t @ ''-'' @ p @ ''-'' @ f) (CHR ''-'') = [''00'', t, p, f]"
    by simp
  then show "trace_context tc (''00-'' @ t @ ''-'' @ p @ ''-'' @ f) e =
          map_outcome
            (\<lambda>(s, e1). (\<lparr>traceID = t, spanID = s, parentSpanID = p, flags = f,
                          sampled = parseSampledFlag f\<rparr>, e1))
            (generateSpanID tc e)"
    by (simp add: trace_context_eq)
qed

theorem parse_accepts_iff_four_fields_version_00_witness:
  "CHR ''-'' \<notin> set ''not hex at all'' \<and> CHR ''-'' \<notin> set ''b'' \<and> CHR ''-'' \<notin> set ''abc''
   \<and> trace_context Go_since_1_24 ''00-not hex at all-b-abc'' [1, 2, 3, 4, 5, 6, 7, 8] =
       Return (\<lparr>traceID = ''not hex at all'', spanID = ''0102030405060708'', parentSpanID = ''b'',
                flags = ''abc'', sampled = False\<rparr>, [])
   \<and> trace_context Go_since_1_24 ''01-4bf92f3577b34da6a3ce929d0e0e4736-00f067aa0ba902b7-01''
        [1, 2, 3, 4, 5, 6, 7, 8]
      = new_trace Go_since_1_24 [1, 2, 3, 4, 5, 6, 7, 8]"
proof -
  let ?e = "[1, 2, 3, 4, 5, 6, 7, 8] :: entropy"
  have nodash: "CHR ''-'' \<notin> set ''not hex at all'' \<and> CHR ''-'' \<notin> set ''b'' \<and> CHR ''-'' \<notin> set ''abc''"
    by simp
  have sid: "generateSpanID Go_since_1_24 ?e = Return (''0102030405060708'', [])"
    by code_simp
  have flag: "parseSampledFlag ''abc'' = False"
    by (simp add: parseSampledFlag_def)
  have accepted: "trace_context Go_since_1_24 ''00-not hex at all-b-abc'' ?e =
       Return (\<lparr>traceID = ''not hex at all'', spanID = ''0102030405060708'', parentSpanID = ''b'',
                flags = ''abc'', sampled = False\<rparr>, [])"
    using parse_accepts_iff_four_fields_version_00
        [of Go_since_1_24 "[]" ?e "''not hex at all''" "''b''" "''abc''"] nodash
    by (simp add: sid flag)
  have version: "hd (Split ''01-4bf92f3577b34da6a3ce929d0e0e4736-00f067aa0ba902b7-01'' (CHR ''-'')) \<noteq> ''00''"
    by simp
  have rejected: "trace_context Go_since_1_24 ''01-4bf92f3577b34da6a3ce929d0e0e4736-00f067aa0ba902b7-01'' ?e
      = new_trace Go_since_1_24 ?e"
    using parse_accepts_iff_four_fields_version_00
      [of Go_since_1_24 "''01-4bf92f3577b34da6a3ce929d0e0e4736-00f067aa0ba902b7-01''" ?e "[]" "[]" "[]"] version
    by (simp only: simp_thms if_False)
  show ?thesis
    using nodash accepted rejected by blast
qed

subsection \<open>C4: the sampled flag\<close>

text \<open>
  C4 says that \<open>parseSampledFlag\<close> returns false for every string that is not exactly
  two hexadecimal digits, and else the lowest bit of the byte. The code does so for
  every string of another length, for two hexadecimal digits
  (\<open>parseSampledFlag_two_hex\<close>) and for the five examples of the claim
  (\<open>parseSampledFlag_examples\<close>), but not for a string of two bytes of which only the
  first is a hexadecimal digit (\<open>parseSampledFlag_one_hex\<close>): the scan reads that
  digit, stops before the second byte and reports no error. So \<open>1g\<close>, which is no
  hexadecimal byte, counts as sampled; and as the scan discards leading space, so does
  a space followed by \<open>1\<close>.
\<close>

theorem parseSampledFlag_true_on_non_hex:
  "length ''1g'' = 2 \<and> \<not> isHexDigit (CHR ''g'')
   \<and> Sscanf_02x ''1g'' = Some 1 \<and> parseSampledFlag ''1g'' = True
   \<and> \<not> isHexDigit (CHR '' '') \<and> parseSampledFlag '' 1'' = True"
  by code_simp

subsection \<open>C5: an unknown format name is no configuration error\<close>

text \<open>
  C5, as stated, fails: \<open>Provision\<close> returns no error for a configuration whose format
  is the unknown name \<open>bogus\<close> and leaves it as it is, and the handler then serves
  requests with it, logging the generic field names.
\<close>

theorem unknown_format_provisioned_without_error:
  "Provision id \<lparr>Format = ''bogus'', ProjectID = []\<rparr>
     = (None, \<lparr>Format = ''bogus'', ProjectID = []\<rparr>)
   \<and> trace_context Go_since_1_24 ''00-4bf92f3577b34da6a3ce929d0e0e4736-00f067aa0ba902b7-01''
         [1, 2, 3, 4, 5, 6, 7, 8]
       = Return (\<lparr>traceID = ''4bf92f3577b34da6a3ce929d0e0e4736'', spanID = ''0102030405060708'',
                  parentSpanID = ''00f067aa0ba902b7'', flags = ''01'', sampled = True\<rparr>, [])
   \<and> logFields (snd (Provision id \<lparr>Format = ''bogus'', ProjectID = []\<rparr>))
         \<lparr>traceID = ''4bf92f3577b34da6a3ce929d0e0e4736'', spanID = ''0102030405060708'',
          parentSpanID = ''00f067aa0ba902b7'', flags = ''01'', sampled = True\<rparr>
       = [zap_String ''trace_id'' ''4bf92f3577b34da6a3ce929d0e0e4736'',
          zap_String ''span_id'' ''0102030405060708'',
          zap_Bool ''trace_sampled'' True,
          zap_String ''parent_span_id'' ''00f067aa0ba902b7'']"
  by code_simp

text \<open>
  C5, amended: an unrecognized format name is not signaled as an error at provisioning
  time. \<open>Provision\<close> returns no error for any configuration and leaves the format
  name unchanged; the name is resolved at request time, where every name other than
  \<open>stackdriver\<close>, \<open>gcp\<close>, \<open>tempo\<close>, \<open>ecs\<close>, \<open>datadog\<close> and \<open>dd\<close>
  selects the generic field names.
\<close>

theorem unknown_format_resolved_at_request_time:
  "fst (Provision repl st) = None
   \<and> Format (snd (Provision repl st)) = Format st
   \<and> (Format st \<notin> set [''stackdriver'', ''gcp'', ''tempo'', ''ecs'', ''datadog'', ''dd''] \<longrightarrow>
        logFields (snd (Provision repl st)) v =
          [zap_String ''trace_id'' (traceID v),
           zap_String ''span_id'' (spanID v),
           zap_Bool ''trace_sampled'' (sampled v)]
          @ (if parentSpanID v \<noteq> [] then [zap_String ''parent_span_id'' (parentSpanID v)] else []))"
proof (intro conjI impI)
  show "fst (Provision repl st) = None"
    by (simp add: Provision_def Let_def)
  show same: "Format (snd (Provision repl st)) = Format st"
    by (simp add: Provision_def Let_def)
  assume "Format st \<notin> set [''stackdriver'', ''gcp'', ''tempo'', ''ecs'', ''datadog'', ''dd'']"
  with same have "Format (snd (Provision repl st))
      \<notin> set [''stackdriver'', ''gcp'', ''tempo'', ''ecs'', ''datadog'', ''dd'']"
    by simp
  then show "logFields (snd (Provision repl st)) v =
          [zap_String ''trace_id'' (traceID v),
           zap_String ''span_id'' (spanID v),
           zap_Bool ''trace_sampled'' (sampled v)]
          @ (if parentSpanID v \<noteq> [] then [zap_String ''parent_span_id'' (parentSpanID v)] else [])"
    by (rule logFields_generic)
qed

theorem unknown_format_resolved_at_request_time_witness:
  "''bogus'' \<notin> set [''stackdriver'', ''gcp'', ''tempo'', ''ecs'', ''datadog'', ''dd'']
   \<and> fst (Provision id \<lparr>Format = ''bogus'', ProjectID = ''p''\<rparr>) = None
   \<and> Format (snd (Provision id \<lparr>Format = ''bogus'', ProjectID = ''p''\<rparr>)) = ''bogus''
   \<and> logFields (snd (Provision id \<lparr>Format = ''bogus'', ProjectID = ''p''\<rparr>))
        \<lparr>traceID = ''abc'', spanID = ''0102030405060708'', parentSpanID = [], flags = ''01'',
         sampled = True\<rparr>
       = [zap_String ''trace_id'' ''abc'', zap_String ''span_id'' ''0102030405060708'',
          zap_Bool ''trace_sampled'' True]"
proof -
  have unknown: "Format \<lparr>Format = ''bogus'', ProjectID = ''p''\<rparr>
      \<notin> set [''stackdriver'', ''gcp'', ''tempo'', ''ecs'', ''datadog'', ''dd'']"
    by simp
  show ?thesis
    using unknown_format_resolved_at_request_time
      [of id "\<lparr>Format = ''bogus'', ProjectID = ''p''\<rparr>"
          "\<lparr>traceID = ''abc'', spanID = ''0102030405060708'', parentSpanID = [], flags = ''01'',
            sampled = True\<rparr>"] unknown
    by simp
qed

subsection \<open>C6: an unknown or empty format gives the generic field names\<close>

text \<open>
  C6: for every configured format that is none of \<open>stackdriver\<close>, \<open>gcp\<close>,
  \<open>tempo\<close>, \<open>ecs\<close>, \<open>datadog\<close> and \<open>dd\<close> (the empty, unconfigured format and
  every unknown name among them), the log fields are \<open>trace_id\<close>, \<open>span_id\<close>,
  \<open>trace_sampled\<close> and, when the parent span id is not empty, \<open>parent_span_id\<close>;
  the handler raises no error for it: what it returns is what the next handler returns
  for the request with these fields added. The handler returns for every state of the
  random source with a Go before 1.24, and with a Go since 1.24 for every state in
  which the source delivers the 24 bytes that two ids take.
\<close>

theorem unknown_format_generic_fields:
  assumes unknown: "Format st \<notin> set [''stackdriver'', ''gcp'', ''tempo'', ''ecs'', ''datadog'', ''dd'']"
    and log: "ExtraLogFields r = Some extra"
    and src: "tc = Go_before_1_24 \<or> 24 \<le> length e"
  shows "logFields st v =
           [zap_String ''trace_id'' (traceID v),
            zap_String ''span_id'' (spanID v),
            zap_Bool ''trace_sampled'' (sampled v)]
           @ (if parentSpanID v \<noteq> [] then [zap_String ''parent_span_id'' (parentSpanID v)] else [])
         \<and> (\<exists>c e'.
               trace_context tc (Header_Get (Header r) ''traceparent'') e = Return (c, e')
             \<and> ServeHTTP tc st r next e =
                 Return (next (handed_on st r extra c), handed_on st r extra c, e')
             \<and> ExtraLogFields (handed_on st r extra c)
                 = Some (extra @
                     [zap_String ''trace_id'' (traceID c),
                      zap_String ''span_id'' (spanID c),
                      zap_Bool ''trace_sampled'' (sampled c)]
                     @ (if parentSpanID c \<noteq> []
                        then [zap_String ''parent_span_id'' (parentSpanID c)]
                        else [])))"
proof (intro conjI)
  show "logFields st v =
           [zap_String ''trace_id'' (traceID v),
            zap_String ''span_id'' (spanID v),
            zap_Bool ''trace_sampled'' (sampled v)]
           @ (if parentSpanID v \<noteq> [] then [zap_String ''parent_span_id'' (parentSpanID v)] else [])"
    using unknown by (rule logFields_generic)
next
  from src obtain c e' where
    ctx: "trace_context tc (Header_Get (Header r) ''traceparent'') e = Return (c, e')"
    using trace_context_returns by blast
  have served: "ServeHTTP tc st r next e =
      Return (next (handed_on st r extra c), handed_on st r extra c, e')"
    using log ctx by (rule ServeHTTP_Return)
  have "ExtraLogFields (handed_on st r extra c) = Some (extra @ logFields st c)"
    by (simp add: handed_on_def)
  then have fields: "ExtraLogFields (handed_on st r extra c)
                 = Some (extra @
                     [zap_String ''trace_id'' (traceID c),
                      zap_String ''span_id'' (spanID c),
                      zap_Bool ''trace_sampled'' (sampled c)]
                     @ (if parentSpanID c \<noteq> []
                        then [zap_String ''parent_span_id'' (parentSpanID c)]
                        else []))"
    by (simp only: logFields_generic [OF unknown] append_assoc)
  show "\<exists>c e'.
               trace_context tc (Header_Get (Header r) ''traceparent'') e = Return (c, e')
             \<and> ServeHTTP tc st r next e =
                 Return (next (handed_on st r extra c), handed_on st r extra c, e')
             \<and> ExtraLogFields (handed_on st r extra c)
                 = Some (extra @
                     [zap_String ''trace_id'' (traceID c),
                      zap_String ''span_id'' (spanID c),
                      zap_Bool ''trace_sampled'' (sampled c)]
                     @ (if parentSpanID c \<noteq> []
                        then [zap_String ''parent_span_id'' (parentSpanID c)]
                        else []))"
    using ctx served fields by blast
qed

theorem unknown_format_generic_fields_witness:
  "''jaeger'' \<notin> set [''stackdriver'', ''gcp'', ''tempo'', ''ecs'', ''datadog'', ''dd'']
   \<and> [] \<notin> set [''stackdriver'', ''gcp'', ''tempo'', ''ecs'', ''datadog'', ''dd'']
   \<and> logFields \<lparr>Format = ''jaeger'', ProjectID = ''p''\<rparr>
        \<lparr>traceID = ''4bf92f3577b34da6a3ce929d0e0e4736'', spanID = ''0102030405060708'',
         parentSpanID = ''00f067aa0ba902b7'', flags = ''01'', sampled = True\<rparr>
      = [zap_String ''trace_id'' ''4bf92f3577b34da6a3ce929d0e0e4736'',
         zap_String ''span_id'' ''0102030405060708'',
         zap_Bool ''trace_sampled'' True,
         zap_String ''parent_span_id'' ''00f067aa0ba902b7'']
   \<and> logFields \<lparr>Format = [], ProjectID = []\<rparr>
        \<lparr>traceID = ''4bf92f3577b34da6a3ce929d0e0e4736'', spanID = ''0102030405060708'',
         parentSpanID = [], flags = ''01'', sampled = True\<rparr>
      = [zap_String ''trace_id'' ''4bf92f3577b34da6a3ce929d0e0e4736'',
         zap_String ''span_id'' ''0102030405060708'',
         zap_Bool ''trace_sampled'' True]"
proof -
  let ?r = "\<lparr>Header = Map.empty, ExtraLogFields = Some []\<rparr>"
  have unknown: "Format \<lparr>Format = ''jaeger'', ProjectID = ''p''\<rparr>
      \<notin> set [''stackdriver'', ''gcp'', ''tempo'', ''ecs'', ''datadog'', ''dd'']"
    by simp
  have unset: "Format \<lparr>Format = [], ProjectID = []\<rparr>
      \<notin> set [''stackdriver'', ''gcp'', ''tempo'', ''ecs'', ''datadog'', ''dd'']"
    by simp
  have log: "ExtraLogFields ?r = Some []"
    by simp
  have src: "Go_before_1_24 = Go_before_1_24 \<or> 24 \<le> length ([] :: entropy)"
    by simp
  show ?thesis
    using unknown_format_generic_fields [OF unknown log src,
        of "\<lparr>traceID = ''4bf92f3577b34da6a3ce929d0e0e4736'', spanID = ''0102030405060708'',
             parentSpanID = ''00f067aa0ba902b7'', flags = ''01'', sampled = True\<rparr>" Map.empty]
      unknown_format_generic_fields [OF unset log src,
        of "\<lparr>traceID = ''4bf92f3577b34da6a3ce929d0e0e4736'', spanID = ''0102030405060708'',
             parentSpanID = [], flags = ''01'', sampled = True\<rparr>" Map.empty]
    by simp
qed

subsection \<open>C7: the trace field of the Google Cloud Logging format\<close>

text \<open>
  C7: with the format \<open>stackdriver\<close> or \<open>gcp\<close> the first log field is
  \<open>logging.googleapis.com/trace\<close> and its value is
  \<open>projects/{project id}/traces/{trace id}\<close> when the project id is not empty, and
  the trace id itself when it is empty; with every other format the first log field
  holds the trace id unchanged.
\<close>

theorem stackdriver_trace_field:
  "((Format st = ''stackdriver'' \<or> Format st = ''gcp'') \<longrightarrow>
      logFields st v =
        [zap_String ''logging.googleapis.com/trace''
           (if ProjectID st \<noteq> [] then ''projects/'' @ ProjectID st @ ''/traces/'' @ traceID v
            else traceID v),
         zap_String ''logging.googleapis.com/spanId'' (spanID v),
         zap_Bool ''logging.googleapis.com/trace_sampled'' (sampled v)]
        @ (if parentSpanID v \<noteq> [] then [zap_String ''parent_span_id'' (parentSpanID v)] else []))
   \<and> (Format st \<noteq> ''stackdriver'' \<and> Format st \<noteq> ''gcp'' \<longrightarrow>
        (\<exists>k rest. logFields st v = zap_String k (traceID v) # rest
           \<and> k \<in> set [''traceID'', ''trace.id'', ''dd.trace_id'', ''trace_id'']))"
proof (intro conjI impI)
  assume "Format st = ''stackdriver'' \<or> Format st = ''gcp''"
  then show "logFields st v =
        [zap_String ''logging.googleapis.com/trace''
           (if ProjectID st \<noteq> [] then ''projects/'' @ ProjectID st @ ''/traces/'' @ traceID v
            else traceID v),
         zap_String ''logging.googleapis.com/spanId'' (spanID v),
         zap_Bool ''logging.googleapis.com/trace_sampled'' (sampled v)]
        @ (if parentSpanID v \<noteq> [] then [zap_String ''parent_span_id'' (parentSpanID v)] else [])"
    by (auto simp: logFields_def)
next
  assume other: "Format st \<noteq> ''stackdriver'' \<and> Format st \<noteq> ''gcp''"
  consider (tempo) "Format st = ''tempo''" | (ecs) "Format st = ''ecs''"
    | (datadog) "Format st = ''datadog'' \<or> Format st = ''dd''"
    | (generic) "Format st \<notin> set [''stackdriver'', ''gcp'', ''tempo'', ''ecs'', ''datadog'', ''dd'']"
    using other by auto
  then show "\<exists>k rest. logFields st v = zap_String k (traceID v) # rest
           \<and> k \<in> set [''traceID'', ''trace.id'', ''dd.trace_id'', ''trace_id'']"
  proof cases
    case tempo
    then have first: "logFields st v = zap_String ''traceID'' (traceID v) # tl (logFields st v)"
      by (simp add: logFields_def)
    show ?thesis
    proof (intro exI conjI)
      show "logFields st v = zap_String ''traceID'' (traceID v) # tl (logFields st v)"
        by (rule first)
      show "''traceID'' \<in> set [''traceID'', ''trace.id'', ''dd.trace_id'', ''trace_id'']"
        by simp
    qed
  next
    case ecs
    then have first: "logFields st v = zap_String ''trace.id'' (traceID v) # tl (logFields st v)"
      by (simp add: logFields_def)
    show ?thesis
    proof (intro exI conjI)
      show "logFields st v = zap_String ''trace.id'' (traceID v) # tl (logFields st v)"
        by (rule first)
      show "''trace.id'' \<in> set [''traceID'', ''trace.id'', ''dd.trace_id'', ''trace_id'']"
        by simp
    qed
  next
    case datadog
    then have first: "logFields st v = zap_String ''dd.trace_id'' (traceID v) # tl (logFields st v)"
      by (auto simp: logFields_def)
    show ?thesis
    proof (intro exI conjI)
      show "logFields st v = zap_String ''dd.trace_id'' (traceID v) # tl (logFields st v)"
        by (rule first)
      show "''dd.trace_id'' \<in> set [''traceID'', ''trace.id'', ''dd.trace_id'', ''trace_id'']"
        by simp
    qed
  next
    case generic
    then have first: "logFields st v = zap_String ''trace_id'' (traceID v) # tl (logFields st v)"
      by (simp add: logFields_generic)
    show ?thesis
    proof (intro exI conjI)
      show "logFields st v = zap_String ''trace_id'' (traceID v) # tl (logFields st v)"
        by (rule first)
      show "''trace_id'' \<in> set [''traceID'', ''trace.id'', ''dd.trace_id'', ''trace_id'']"
        by simp
    qed
  qed
qed

theorem stackdriver_trace_field_witness:
  "logFields \<lparr>Format = ''stackdriver'', ProjectID = ''my-project''\<rparr>
      \<lparr>traceID = ''4bf92f3577b34da6a3ce929d0e0e4736'', spanID = ''0102030405060708'',
       parentSpanID = [], flags = ''01'', sampled = True\<rparr>
     = [zap_String ''logging.googleapis.com/trace''
          ''projects/my-project/traces/4bf92f3577b34da6a3ce929d0e0e4736'',
        zap_String ''logging.googleapis.com/spanId'' ''0102030405060708'',
        zap_Bool ''logging.googleapis.com/trace_sampled'' True]
   \<and> logFields \<lparr>Format = ''gcp'', ProjectID = []\<rparr>
      \<lparr>traceID = ''4bf92f3577b34da6a3ce929d0e0e4736'', spanID = ''0102030405060708'',
       parentSpanID = [], flags = ''01'', sampled = True\<rparr>
     = [zap_String ''logging.googleapis.com/trace'' ''4bf92f3577b34da6a3ce929d0e0e4736'',
        zap_String ''logging.googleapis.com/spanId'' ''0102030405060708'',
        zap_Bool ''logging.googleapis.com/trace_sampled'' True]
   \<and> hd (logFields \<lparr>Format = ''ecs'', ProjectID = ''my-project''\<rparr>
      \<lparr>traceID = ''4bf92f3577b34da6a3ce929d0e0e4736'', spanID = ''0102030405060708'',
       parentSpanID = [], flags = ''01'', sampled = True\<rparr>)
     \<in> set (map (\<lambda>k. zap_String k ''4bf92f3577b34da6a3ce929d0e0e4736'')
               [''traceID'', ''trace.id'', ''dd.trace_id'', ''trace_id''])"
proof -
  let ?v = "\<lparr>traceID = ''4bf92f3577b34da6a3ce929d0e0e4736'', spanID = ''0102030405060708'',
       parentSpanID = [], flags = ''01'', sampled = True\<rparr>"
  have a: "logFields \<lparr>Format = ''stackdriver'', ProjectID = ''my-project''\<rparr> ?v
     = [zap_String ''logging.googleapis.com/trace''
          ''projects/my-project/traces/4bf92f3577b34da6a3ce929d0e0e4736'',
        zap_String ''logging.googleapis.com/spanId'' ''0102030405060708'',
        zap_Bool ''logging.googleapis.com/trace_sampled'' True]"
    using stackdriver_trace_field [of "\<lparr>Format = ''stackdriver'', ProjectID = ''my-project''\<rparr>" ?v]
    by simp
  have b: "logFields \<lparr>Format = ''gcp'', ProjectID = []\<rparr> ?v
     = [zap_String ''logging.googleapis.com/trace'' ''4bf92f3577b34da6a3ce929d0e0e4736'',
        zap_String ''logging.googleapis.com/spanId'' ''0102030405060708'',
        zap_Bool ''logging.googleapis.com/trace_sampled'' True]"
    using stackdriver_trace_field [of "\<lparr>Format = ''gcp'', ProjectID = []\<rparr>" ?v]
    by simp
  have c: "hd (logFields \<lparr>Format = ''ecs'', ProjectID = ''my-project''\<rparr> ?v)
     \<in> set (map (\<lambda>k. zap_String k ''4bf92f3577b34da6a3ce929d0e0e4736'')
               [''traceID'', ''trace.id'', ''dd.trace_id'', ''trace_id''])"
    using stackdriver_trace_field [of "\<lparr>Format = ''ecs'', ProjectID = ''my-project''\<rparr>" ?v]
    by auto
  show ?thesis
    using a b c by blast
qed

subsection \<open>C8: a failing random source\<close>

text \<open>
  C8 says that when the random source fails, \<open>generateTraceID\<close> returns 32 zeros and
  \<open>generateSpanID\<close> 16 zeros, and that the failure goes no further: the request is
  not aborted. Both generators test the error of \<open>rand.Read\<close> and mean to return the
  zeros then, and built with a Go before 1.24 they do (\<open>generateTraceID_fallback\<close>,
  \<open>generateSpanID_fallback\<close>, \<open>ServeHTTP_fallback\<close>). Built with a Go since 1.24,
  \<open>rand.Read\<close> returns no error for them to test: on a failing source it ends the
  process, so neither generator returns an identifier, the handler does not return and
  the next handler is not called.
\<close>

theorem random_failure_ends_process:
  "rand_Read Go_since_1_24 16 [] = Fatal
   \<and> generateTraceID Go_since_1_24 [] = Fatal
   \<and> generateSpanID Go_since_1_24 [] = Fatal
   \<and> ServeHTTP Go_since_1_24 \<lparr>Format = [], ProjectID = []\<rparr>
         \<lparr>Header = Map.empty, ExtraLogFields = Some []\<rparr> Map.empty [] = Fatal
   \<and> ServeHTTP Go_since_1_24 \<lparr>Format = [], ProjectID = []\<rparr>
         \<lparr>Header = [''traceparent'' \<mapsto> ''00-4bf92f3577b34da6a3ce929d0e0e4736-00f067aa0ba902b7-01''],
          ExtraLogFields = Some []\<rparr> Map.empty [] = Fatal
   \<and> generateTraceID Go_before_1_24 [] = Return (''00000000000000000000000000000000'', [])
   \<and> generateSpanID Go_before_1_24 [] = Return (''0000000000000000'', [])"
proof -
  have "rand_Read Go_since_1_24 16 [] = Fatal"
    by (simp add: rand_Read_def)
  moreover have "generateTraceID Go_since_1_24 [] = Fatal"
    by (simp add: generateTraceID_fatal)
  moreover have "generateSpanID Go_since_1_24 [] = Fatal"
    by (simp add: generateSpanID_fatal)
  moreover have "ServeHTTP Go_since_1_24 st r next [] = Fatal" for st r "next"
    by (rule ServeHTTP_Fatal) (simp add: trace_context_Fatal)
  moreover have "generateTraceID Go_before_1_24 [] = Return (''00000000000000000000000000000000'', [])"
    by (simp add: generateTraceID_fallback)
  moreover have "generateSpanID Go_before_1_24 [] = Return (''0000000000000000'', [])"
    by (simp add: generateSpanID_fallback)
  ultimately show ?thesis
    by simp
qed

subsection \<open>C9: flags that are no hexadecimal byte\<close>

text \<open>
  C9 says that a header which parses with flags that are not a well-formed hexadecimal
  byte of 2 characters gets these flags back unchanged in the outgoing header and is
  reported as not sampled. The flags are handed on unchanged, and flags of another
  length than 2 are reported as not sampled (\<open>parseSampledFlag_wrong_length\<close>); but
  for the header \<open>00-a-b-1g\<close> the handler reports sampled, by the same scan of
  \<open>parseSampledFlag\<close> as in C4.
\<close>

theorem non_hex_flags_reported_sampled:
  "trace_context Go_since_1_24 ''00-a-b-1g'' [1, 2, 3, 4, 5, 6, 7, 8] =
     Return (\<lparr>traceID = ''a'', spanID = ''0102030405060708'', parentSpanID = ''b'',
              flags = ''1g'', sampled = True\<rparr>, [])
   \<and> trace_context Go_before_1_24 ''00-a-b-1g'' [1, 2, 3, 4, 5, 6, 7, 8] =
     Return (\<lparr>traceID = ''a'', spanID = ''0102030405060708'', parentSpanID = ''b'',
              flags = ''1g'', sampled = True\<rparr>, [])
   \<and> newTraceParent \<lparr>traceID = ''a'', spanID = ''0102030405060708'', parentSpanID = ''b'',
              flags = ''1g'', sampled = True\<rparr>
       = ''00-a-0102030405060708-1g''
   \<and> logFields \<lparr>Format = [], ProjectID = []\<rparr>
         \<lparr>traceID = ''a'', spanID = ''0102030405060708'', parentSpanID = ''b'',
          flags = ''1g'', sampled = True\<rparr>
       = [zap_String ''trace_id'' ''a'', zap_String ''span_id'' ''0102030405060708'',
          zap_Bool ''trace_sampled'' True, zap_String ''parent_span_id'' ''b'']"
  by code_simp

subsection \<open>C10: the parent field is logged exactly for a parent span id that is not empty\<close>

text \<open>
  C10: in every format the log fields contain a parent span id field exactly when the
  parent span id string is not empty: then it is the fourth and last field and holds
  that string, else there are three fields. So a header that parses with an empty third
  field, such as \<open>00-abc--01\<close>, is continued but logged without a parent field.
\<close>

theorem parent_field_iff_parent_span_id_nonempty:
  "has_parent_field (logFields st v) = (parentSpanID v \<noteq> [])
   \<and> length (logFields st v) = (if parentSpanID v = [] then 3 else 4)
   \<and> \<not> has_parent_field (take 3 (logFields st v))
   \<and> (parentSpanID v \<noteq> [] \<longrightarrow>
        field_key (logFields st v ! 3) \<in> set parent_keys
        \<and> logFields st v ! 3 = zap_String (field_key (logFields st v ! 3)) (parentSpanID v))
   \<and> (Split h (CHR ''-'') = [''00'', t, [], f] \<longrightarrow>
        trace_context tc h e =
          map_outcome
            (\<lambda>(s, e1). (\<lparr>traceID = t, spanID = s, parentSpanID = [], flags = f,
                          sampled = parseSampledFlag f\<rparr>, e1))
            (generateSpanID tc e)
        \<and> \<not> has_parent_field (logFields st
              \<lparr>traceID = t, spanID = s, parentSpanID = [], flags = f,
               sampled = parseSampledFlag f\<rparr>))"
proof (intro conjI impI)
  show "has_parent_field (logFields st v) = (parentSpanID v \<noteq> [])"
    by (rule has_parent_field_iff)
  show "length (logFields st v) = (if parentSpanID v = [] then 3 else 4)"
    by (rule length_logFields)
  show "\<not> has_parent_field (take 3 (logFields st v))"
    by (simp add: has_parent_field_def logFields_def field_key_def parent_keys_def Let_def)
next
  assume "parentSpanID v \<noteq> []"
  then show "field_key (logFields st v ! 3) \<in> set parent_keys"
    and "logFields st v ! 3 = zap_String (field_key (logFields st v ! 3)) (parentSpanID v)"
    by (simp_all add: logFields_def field_key_def parent_keys_def Let_def nth_append)
next
  assume parts: "Split h (CHR ''-'') = [''00'', t, [], f]"
  then show "trace_context tc h e =
          map_outcome
            (\<lambda>(s, e1). (\<lparr>traceID = t, spanID = s, parentSpanID = [], flags = f,
                          sampled = parseSampledFlag f\<rparr>, e1))
            (generateSpanID tc e)"
    by (simp add: trace_context_eq)
  show "\<not> has_parent_field (logFields st
              \<lparr>traceID = t, spanID = s, parentSpanID = [], flags = f,
               sampled = parseSampledFlag f\<rparr>)"
    by (simp add: has_parent_field_iff)
qed

theorem parent_field_iff_parent_span_id_nonempty_witness:
  "Split ''00-abc--01'' (CHR ''-'') = [''00'', ''abc'', [], ''01'']
   \<and> trace_context Go_since_1_24 ''00-abc--01'' [1, 2, 3, 4, 5, 6, 7, 8] =
        Return (\<lparr>traceID = ''abc'', spanID = ''0102030405060708'', parentSpanID = [],
                 flags = ''01'', sampled = True\<rparr>, [])
   \<and> \<not> has_parent_field (logFields \<lparr>Format = ''dd'', ProjectID = []\<rparr>
        \<lparr>traceID = ''abc'', spanID = ''0102030405060708'', parentSpanID = [],
         flags = ''01'', sampled = True\<rparr>)
   \<and> parentSpanID \<lparr>traceID = ''abc'', spanID = ''0102030405060708'', parentSpanID = ''b'',
         flags = ''01'', sampled = True\<rparr> \<noteq> []
   \<and> has_parent_field (logFields \<lparr>Format = ''dd'', ProjectID = []\<rparr>
        \<lparr>traceID = ''abc'', spanID = ''0102030405060708'', parentSpanID = ''b'',
         flags = ''01'', sampled = True\<rparr>)"
proof -
  let ?e = "[1, 2, 3, 4, 5, 6, 7, 8] :: entropy"
  have parts: "Split ''00-abc--01'' (CHR ''-'') = [''00'', ''abc'', [], ''01'']"
    by simp
  have sid: "generateSpanID Go_since_1_24 ?e = Return (''0102030405060708'', [])"
    by code_simp
  have flag: "parseSampledFlag ''01'' = True"
    by code_simp
  note empty_parent = parent_field_iff_parent_span_id_nonempty
      [of "\<lparr>Format = ''dd'', ProjectID = []\<rparr>" _ "''00-abc--01''" "''abc''" "''01''"
          Go_since_1_24 ?e "''0102030405060708''"]
  from empty_parent parts
  have "trace_context Go_since_1_24 ''00-abc--01'' ?e =
          map_outcome
            (\<lambda>(s, e1). (\<lparr>traceID = ''abc'', spanID = s, parentSpanID = [], flags = ''01'',
                          sampled = parseSampledFlag ''01''\<rparr>, e1))
            (generateSpanID Go_since_1_24 ?e)"
    by blast
  then have ctx: "trace_context Go_since_1_24 ''00-abc--01'' ?e =
        Return (\<lparr>traceID = ''abc'', spanID = ''0102030405060708'', parentSpanID = [],
                 flags = ''01'', sampled = True\<rparr>, [])"
    by (simp add: sid flag)
  from empty_parent parts
  have "\<not> has_parent_field (logFields \<lparr>Format = ''dd'', ProjectID = []\<rparr>
      \<lparr>traceID = ''abc'', spanID = ''0102030405060708'', parentSpanID = [], flags = ''01'',
       sampled = parseSampledFlag ''01''\<rparr>)"
    by blast
  then have none: "\<not> has_parent_field (logFields \<lparr>Format = ''dd'', ProjectID = []\<rparr>
      \<lparr>traceID = ''abc'', spanID = ''0102030405060708'', parentSpanID = [], flags = ''01'',
       sampled = True\<rparr>)"
    by (simp add: flag)
  have some: "has_parent_field (logFields \<lparr>Format = ''dd'', ProjectID = []\<rparr>
        \<lparr>traceID = ''abc'', spanID = ''0102030405060708'', parentSpanID = ''b'',
         flags = ''01'', sampled = True\<rparr>)"
    using parent_field_iff_parent_span_id_nonempty
      [of "\<lparr>Format = ''dd'', ProjectID = []\<rparr>"
          "\<lparr>traceID = ''abc'', spanID = ''0102030405060708'', parentSpanID = ''b'',
            flags = ''01'', sampled = True\<rparr>" "[]" "[]" "[]" Go_since_1_24 "[]" "[]"]
    by simp
  show ?thesis
    using parts ctx none some by simp
qed

end
